theory Spec2Isabelle
  imports
    Main
    "HOL-Library.AList"
    "HOL-Library.Multiset"
    "HOL-Library.Char_ord"
    "HOL-Library.List_Lexorder"
begin

section \<open>Python values that occur in the rows of a data frame\<close>

text \<open>
  Python raises where HOL would return an unspecified value, so every raise is a value:
  \<open>Inl e\<close> of a sum type. \<open>HandlerError\<close> stands for whatever exception a store handler
  lets escape (a transport or database error).
\<close>

datatype error = HandlerError | TypeError | IndexError | AttributeError

text \<open>
  A cell of a pandas row. The journal store delivers strings, and \<open>NaN\<close> where a row of
  the same frame has no binding for a column; the relational store delivers strings,
  \<open>None\<close> for SQL NULL and integers. \<open>CNA\<close> is \<open>pandas.NA\<close>, the one value
  here whose \<open>bool()\<close> raises. Floats other than NaN are not modelled.
\<close>

datatype cell = CNone | CNaN | CStr string | CBool bool | CInt int | CNA

text \<open>\<open>str.strip()\<close> on ASCII text: the characters for which \<open>str.isspace\<close> holds.\<close>

definition is_space :: "char \<Rightarrow> bool" where
  "is_space c = (c \<in> set [CHR 0x09, CHR 0x0A, CHR 0x0B, CHR 0x0C, CHR 0x0D,
                           CHR 0x1C, CHR 0x1D, CHR 0x1E, CHR 0x1F, CHR '' ''])"

definition strip :: "string \<Rightarrow> string" where
  "strip s = rev (dropWhile is_space (rev (dropWhile is_space s)))"

text \<open>\<open>str.lower()\<close> on ASCII text.\<close>

definition lower_char :: "char \<Rightarrow> char" where
  "lower_char c =
     (case map_of (zip ''ABCDEFGHIJKLMNOPQRSTUVWXYZ'' ''abcdefghijklmnopqrstuvwxyz'') c of
        Some d \<Rightarrow> d
      | None \<Rightarrow> c)"

definition lower :: "string \<Rightarrow> string" where
  "lower s = map lower_char s"

text \<open>Decimal rendering, as \<open>str(n)\<close> and the f-string \<open>f"__row_{idx}"\<close> produce it.\<close>

fun str_nat :: "nat \<Rightarrow> string" where
  "str_nat n =
     (if n < 10 then [''0123456789'' ! n]
      else str_nat (n div 10) @ [''0123456789'' ! (n mod 10)])"

declare str_nat.simps [simp del]

definition str_int :: "int \<Rightarrow> string" where
  "str_int i = (if i < 0 then CHR ''-'' # str_nat (nat (- i)) else str_nat (nat i))"

fun py_str :: "cell \<Rightarrow> string" where
  "py_str CNone = ''None''"
| "py_str CNaN = ''nan''"
| "py_str (CStr s) = s"
| "py_str (CBool b) = (if b then ''True'' else ''False'')"
| "py_str (CInt i) = str_int i"
| "py_str CNA = ''<NA>''"

text \<open>\<open>BasicQueryEngine._has_value\<close>: not None, not NaN, not a blank string.\<close>

fun has_value :: "cell \<Rightarrow> bool" where
  "has_value CNone = False"
| "has_value CNaN = False"
| "has_value (CStr s) = (strip s \<noteq> [])"
| "has_value v = True"

text \<open>
  \<open>BasicQueryEngine._to_bool\<close>: a bool is itself, a string is true when it reads
  1, true or yes, anything else goes through \<open>bool(value)\<close>, which raises for
  \<open>pandas.NA\<close>.
\<close>

fun to_bool :: "cell \<Rightarrow> error + bool" where
  "to_bool (CBool b) = Inr b"
| "to_bool (CStr s) = Inr (lower (strip s) \<in> {''1'', ''true'', ''yes''})"
| "to_bool CNone = Inr False"
| "to_bool CNaN = Inr True"
| "to_bool (CInt i) = Inr (i \<noteq> 0)"
| "to_bool CNA = Inl TypeError"

section \<open>Entity model (models.py)\<close>

text \<open>
  The class hierarchy is a record hierarchy: \<open>IdentifiableEntity\<close> holds the identifier
  list, \<open>Journal\<close> and \<open>Category\<close> extend it, \<open>Area\<close> adds nothing. A mutator returns
  the updated entity.
\<close>

record IdentifiableEntity =
  ids :: "string list"

record Category = IdentifiableEntity +
  quartile :: "string option"

type_synonym Area = IdentifiableEntity

record Journal = IdentifiableEntity +
  title :: string
  languages :: "string list"
  publisher :: "string option"
  seal :: bool
  licence :: string
  apc :: bool
  categories :: "Category list"
  areas :: "Area list"

definition getIds :: "'a IdentifiableEntity_scheme \<Rightarrow> string list" where
  "getIds e = ids e"

text \<open>\<open>addId\<close>: \<open>if entity_id and entity_id not in self._ids: self._ids.append(entity_id)\<close>.\<close>

definition addId :: "'a IdentifiableEntity_scheme \<Rightarrow> string \<Rightarrow> 'a IdentifiableEntity_scheme" where
  "addId e entity_id =
     (if entity_id \<noteq> [] \<and> entity_id \<notin> set (ids e)
      then e\<lparr>ids := ids e @ [entity_id]\<rparr> else e)"

text \<open>\<open>setId\<close>: \<open>self._ids = [entity_id] if entity_id else []\<close>.\<close>

definition setId :: "'a IdentifiableEntity_scheme \<Rightarrow> string \<Rightarrow> 'a IdentifiableEntity_scheme" where
  "setId e entity_id = e\<lparr>ids := (if entity_id \<noteq> [] then [entity_id] else [])\<rparr>"

text \<open>The constructors: every field at its default.\<close>

definition new_Journal :: Journal where
  "new_Journal = \<lparr>ids = [], title = [], languages = [], publisher = None, seal = False,
                  licence = [], apc = False, categories = [], areas = []\<rparr>"

definition new_Category :: Category where
  "new_Category = \<lparr>ids = [], quartile = None\<rparr>"

definition new_Area :: Area where
  "new_Area = \<lparr>ids = []\<rparr>"

text \<open>A call of one of the two identifier mutators, and a sequence of such calls.\<close>

datatype id_call = AddId string | SetId string

fun id_call_apply :: "'a IdentifiableEntity_scheme \<Rightarrow> id_call \<Rightarrow> 'a IdentifiableEntity_scheme" where
  "id_call_apply e (AddId s) = addId e s"
| "id_call_apply e (SetId s) = setId e s"

definition id_calls_apply :: "'a IdentifiableEntity_scheme \<Rightarrow> id_call list \<Rightarrow> 'a IdentifiableEntity_scheme" where
  "id_calls_apply e calls = foldl id_call_apply e calls"

text \<open>The invariant of the identifier list: no empty string, no duplicate.\<close>

definition ids_ok :: "'a IdentifiableEntity_scheme \<Rightarrow> bool" where
  "ids_ok e = (distinct (ids e) \<and> [] \<notin> set (ids e))"

section \<open>Rows, data frames and handler responses\<close>

text \<open>
  A row is a pandas Series: \<open>k in row\<close> asks whether the frame has the column,
  \<open>row.get(k)\<close> returns the cell, or None when the column is missing.
\<close>

type_synonym row = "string \<rightharpoonup> cell"

definition row_has :: "row \<Rightarrow> string \<Rightarrow> bool" where
  "row_has r k = (r k \<noteq> None)"

definition row_get :: "row \<Rightarrow> string \<Rightarrow> cell" where
  "row_get r k = (case r k of None \<Rightarrow> CNone | Some v \<Rightarrow> v)"

text \<open>
  A data frame has column labels and records, one cell per column; its index is the
  default one, so \<open>iterrows\<close> numbers the records from 0. \<open>df.empty\<close> holds when
  either axis has length 0.
\<close>

datatype dataframe = DataFrame (columns: "string list") (records: "cell list list")

definition empty_DataFrame :: dataframe where
  "empty_DataFrame = DataFrame [] []"

definition df_empty :: "dataframe \<Rightarrow> bool" where
  "df_empty df = (columns df = [] \<or> records df = [])"

definition row_of :: "dataframe \<Rightarrow> cell list \<Rightarrow> row" where
  "row_of df cells = map_of (zip (columns df) cells)"

definition iterrows :: "dataframe \<Rightarrow> (nat \<times> row) list" where
  "iterrows df = zip [0 ..< length (records df)] (map (row_of df) (records df))"

text \<open>\<open>df.iloc[0]\<close>, read only after \<open>df.empty\<close> was found false.\<close>

definition iloc0 :: "dataframe \<Rightarrow> row" where
  "iloc0 df = row_of df (hd (records df))"

text \<open>
  What a call of a handler method does: it raises (\<open>Inl\<close>), or it returns None or a
  data frame.
\<close>

type_synonym response = "error + dataframe option"

section \<open>Registered handlers and the engine state (query_engines.py)\<close>

text \<open>
  The engine sees a handler through the methods it calls, so a handler is the record of
  its answers. \<open>jh_ref\<close> and \<open>ch_ref\<close> are the object identities: the handler classes
  define no \<open>__eq__\<close>, so \<open>handler not in list\<close> compares identities. The last two
  fields of a classification handler are the answers of the database at
  \<open>getDbPathOrUrl()\<close> to the two statements the engine itself sends
  (\<open>SELECT DISTINCT issn FROM journal_categories WHERE category_id = ?\<close> and
  \<open>SELECT DISTINCT issn FROM journal_areas WHERE area_id = ?\<close>): the fetched first
  columns, or the exception raised.
\<close>

record JournalHandler =
  jh_ref :: nat
  jh_getById :: "string \<Rightarrow> response"
  jh_getAllJournals :: response
  jh_getJournalsWithTitle :: "string \<Rightarrow> response"
  jh_getJournalsPublishedBy :: "string \<Rightarrow> response"
  jh_getJournalsWithLicense :: "string set \<Rightarrow> response"
  jh_getJournalsWithAPC :: response
  jh_getJournalsWithDOAJSeal :: response
  jh_getJournalsByIssns :: "string set \<Rightarrow> response"

record CategoryHandler =
  ch_ref :: nat
  ch_getById :: "string \<Rightarrow> response"
  ch_getAllCategories :: response
  ch_getAllAreas :: response
  ch_getCategoriesWithQuartile :: "string set \<Rightarrow> response"
  ch_getCategoriesAssignedToAreas :: "string set \<Rightarrow> response"
  ch_getAreasAssignedToCategories :: "string set \<Rightarrow> response"
  ch_journal_categories :: "string \<Rightarrow> error + string list"
  ch_journal_areas :: "string \<Rightarrow> error + string list"

record BasicQueryEngine =
  journalQuery :: "JournalHandler list"
  categoryQuery :: "CategoryHandler list"

definition new_BasicQueryEngine :: BasicQueryEngine where
  "new_BasicQueryEngine = \<lparr>journalQuery = [], categoryQuery = []\<rparr>"

text \<open>
  The four registry methods return their flag and the new state. The argument of an
  \<open>add\<close> is a handler object or None; an object is truthy, None is not. Appending to and
  clearing a list do not raise, so the \<open>except\<close> branch that returns False has no
  counterpart.
\<close>

definition cleanJournalHandlers :: "BasicQueryEngine \<Rightarrow> bool \<times> BasicQueryEngine" where
  "cleanJournalHandlers eng = (True, eng\<lparr>journalQuery := []\<rparr>)"

definition cleanCategoryHandlers :: "BasicQueryEngine \<Rightarrow> bool \<times> BasicQueryEngine" where
  "cleanCategoryHandlers eng = (True, eng\<lparr>categoryQuery := []\<rparr>)"

definition addJournalHandler ::
  "BasicQueryEngine \<Rightarrow> JournalHandler option \<Rightarrow> bool \<times> BasicQueryEngine" where
  "addJournalHandler eng handler =
     (case handler of
        None \<Rightarrow> (True, eng)
      | Some h \<Rightarrow>
          if jh_ref h \<notin> set (map jh_ref (journalQuery eng))
          then (True, eng\<lparr>journalQuery := journalQuery eng @ [h]\<rparr>)
          else (True, eng))"

definition addCategoryHandler ::
  "BasicQueryEngine \<Rightarrow> CategoryHandler option \<Rightarrow> bool \<times> BasicQueryEngine" where
  "addCategoryHandler eng handler =
     (case handler of
        None \<Rightarrow> (True, eng)
      | Some h \<Rightarrow>
          if ch_ref h \<notin> set (map ch_ref (categoryQuery eng))
          then (True, eng\<lparr>categoryQuery := categoryQuery eng @ [h]\<rparr>)
          else (True, eng))"

text \<open>The engine states that exist: those a sequence of registry calls builds.\<close>

datatype registry_call =
    AddJournalHandler "JournalHandler option"
  | AddCategoryHandler "CategoryHandler option"
  | CleanJournalHandlers
  | CleanCategoryHandlers

fun registry_call_apply :: "BasicQueryEngine \<Rightarrow> registry_call \<Rightarrow> BasicQueryEngine" where
  "registry_call_apply eng (AddJournalHandler h) = snd (addJournalHandler eng h)"
| "registry_call_apply eng (AddCategoryHandler h) = snd (addCategoryHandler eng h)"
| "registry_call_apply eng CleanJournalHandlers = snd (cleanJournalHandlers eng)"
| "registry_call_apply eng CleanCategoryHandlers = snd (cleanCategoryHandlers eng)"

definition engine_after :: "registry_call list \<Rightarrow> BasicQueryEngine" where
  "engine_after calls = foldl registry_call_apply new_BasicQueryEngine calls"

text \<open>How many entries of a handler list are the given instance.\<close>

definition journal_entries :: "BasicQueryEngine \<Rightarrow> JournalHandler \<Rightarrow> nat" where
  "journal_entries eng h = length (filter (\<lambda>x. jh_ref x = jh_ref h) (journalQuery eng))"

definition category_entries :: "BasicQueryEngine \<Rightarrow> CategoryHandler \<Rightarrow> nat" where
  "category_entries eng h = length (filter (\<lambda>x. ch_ref x = ch_ref h) (categoryQuery eng))"

definition registry_ok :: "BasicQueryEngine \<Rightarrow> bool" where
  "registry_ok eng =
     (distinct (map jh_ref (journalQuery eng)) \<and> distinct (map ch_ref (categoryQuery eng)))"


definition demo_journal_handler :: "nat \<Rightarrow> response \<Rightarrow> JournalHandler" where
  "demo_journal_handler ref all =
     \<lparr>jh_ref = ref, jh_getById = (\<lambda>_. Inr (Some empty_DataFrame)), jh_getAllJournals = all,
      jh_getJournalsWithTitle = (\<lambda>_. all), jh_getJournalsPublishedBy = (\<lambda>_. all),
      jh_getJournalsWithLicense = (\<lambda>_. all), jh_getJournalsWithAPC = all,
      jh_getJournalsWithDOAJSeal = all, jh_getJournalsByIssns = (\<lambda>_. all)\<rparr>"

definition demo_category_handler :: "nat \<Rightarrow> response \<Rightarrow> CategoryHandler" where
  "demo_category_handler ref all =
     \<lparr>ch_ref = ref, ch_getById = (\<lambda>_. Inr (Some empty_DataFrame)), ch_getAllCategories = all,
      ch_getAllAreas = all, ch_getCategoriesWithQuartile = (\<lambda>_. all),
      ch_getCategoriesAssignedToAreas = (\<lambda>_. all), ch_getAreasAssignedToCategories = (\<lambda>_. all),
      ch_journal_categories = (\<lambda>_. Inr []), ch_journal_areas = (\<lambda>_. Inr [])\<rparr>"


section \<open>Rows to entities and the merge maps (BasicQueryEngine)\<close>

text \<open>
  \<open>_get_journal_key\<close>: the first of the columns issn, eissn, journal that the row has
  with a meaningful value, stripped; otherwise the text \<open>__row_\<close> followed by the index
  of the row in its data frame.
\<close>

fun first_candidate :: "row \<Rightarrow> string list \<Rightarrow> string option" where
  "first_candidate r [] = None"
| "first_candidate r (candidate # rest) =
     (if row_has r candidate \<and> has_value (row_get r candidate)
      then Some (strip (py_str (row_get r candidate)))
      else first_candidate r rest)"

definition get_journal_key :: "row \<Rightarrow> nat \<Rightarrow> string" where
  "get_journal_key r idx =
     (case first_candidate r [''issn'', ''eissn'', ''journal''] of
        Some key \<Rightarrow> key
      | None \<Rightarrow> ''__row_'' @ str_nat idx)"

text \<open>
  \<open>_dataframe_to_journal\<close>. The body runs inside \<open>try\<close>; the only operations that can
  raise are the two \<open>_to_bool\<close> calls, and then the method returns None.
\<close>

definition dataframe_to_journal :: "row \<Rightarrow> Journal option" where
  "dataframe_to_journal r =
     (let journal = new_Journal;
          issn = (if row_has r ''issn'' then row_get r ''issn'' else CNone);
          issn = (if \<not> has_value issn
                  then (if row_has r ''eissn'' then row_get r ''eissn'' else CNone)
                  else issn);
          journal = (if has_value issn then setId journal (strip (py_str issn)) else journal);
          title_value = row_get r ''title'';
          journal = journal\<lparr>title := (if has_value title_value
                                        then strip (py_str title_value) else [])\<rparr>;
          language_value = (if row_has r ''language'' then row_get r ''language'' else CNone);
          journal = journal\<lparr>languages := (if has_value language_value
                                            then [strip (py_str language_value)] else [])\<rparr>;
          publisher_value = row_get r ''publisher'';
          journal = journal\<lparr>publisher := (if has_value publisher_value
                                            then Some (strip (py_str publisher_value)) else None)\<rparr>;
          seal_value = row_get r ''seal''
      in case (if has_value seal_value then to_bool seal_value else Inr False) of
           Inl e \<Rightarrow> None
         | Inr s \<Rightarrow>
             (let journal = journal\<lparr>seal := s\<rparr>;
                  licence_value = row_get r ''licence'';
                  journal = journal\<lparr>licence := (if has_value licence_value
                                                  then strip (py_str licence_value) else [])\<rparr>;
                  apc_value = row_get r ''apc''
              in case (if has_value apc_value then to_bool apc_value else Inr False) of
                   Inl e \<Rightarrow> None
                 | Inr a \<Rightarrow> Some (journal\<lparr>apc := a\<rparr>)))"

text \<open>\<open>_dataframe_to_category\<close> and \<open>_dataframe_to_area\<close>: nothing in them can raise.\<close>

definition dataframe_to_category :: "row \<Rightarrow> Category option" where
  "dataframe_to_category r =
     (let category = new_Category;
          identifier = row_get r ''id'';
          category = setId category (if has_value identifier then strip (py_str identifier) else []);
          q = row_get r ''quartile''
      in Some (category\<lparr>quartile := (if has_value q then Some (strip (py_str q)) else None)\<rparr>))"

definition dataframe_to_area :: "row \<Rightarrow> Area option" where
  "dataframe_to_area r =
     (let area = new_Area;
          identifier = row_get r ''id''
      in Some (setId area (if has_value identifier then strip (py_str identifier) else [])))"

text \<open>
  \<open>_update_journal_from_row\<close> merges a further row into the journal stored under its
  key. Its six statements are six steps, run in the order of the source. The method has
  no \<open>try\<close> of its own, so a raising \<open>_to_bool\<close> leaves it.
  \<open>not journal.getPublisher()\<close> holds for None and for the empty string.
\<close>

definition merge_title :: "Journal \<Rightarrow> row \<Rightarrow> Journal" where
  "merge_title journal r =
     (if has_value (row_get r ''title'') \<and> title journal = []
      then journal\<lparr>title := strip (py_str (row_get r ''title''))\<rparr> else journal)"

definition merge_language :: "Journal \<Rightarrow> row \<Rightarrow> Journal" where
  "merge_language journal r =
     (let language = row_get r ''language''
      in if has_value language
         then (let lang_value = strip (py_str language)
               in if lang_value \<notin> set (languages journal)
                  then journal\<lparr>languages := languages journal @ [lang_value]\<rparr>
                  else journal)
         else journal)"

definition merge_publisher :: "Journal \<Rightarrow> row \<Rightarrow> Journal" where
  "merge_publisher journal r =
     (if has_value (row_get r ''publisher'')
         \<and> (publisher journal = None \<or> publisher journal = Some [])
      then journal\<lparr>publisher := Some (strip (py_str (row_get r ''publisher'')))\<rparr>
      else journal)"

definition merge_seal :: "Journal \<Rightarrow> row \<Rightarrow> error + Journal" where
  "merge_seal journal r =
     (let seal_value = row_get r ''seal''
      in if has_value seal_value
         then (case to_bool seal_value of
                 Inl e \<Rightarrow> Inl e
               | Inr b \<Rightarrow> Inr (journal\<lparr>seal := b\<rparr>))
         else Inr journal)"

definition merge_licence :: "Journal \<Rightarrow> row \<Rightarrow> Journal" where
  "merge_licence journal r =
     (let licence_value = row_get r ''licence''
      in if has_value licence_value \<and> licence journal = []
         then journal\<lparr>licence := strip (py_str licence_value)\<rparr> else journal)"

definition merge_apc :: "Journal \<Rightarrow> row \<Rightarrow> error + Journal" where
  "merge_apc journal r =
     (let apc_value = row_get r ''apc''
      in if has_value apc_value
         then (case to_bool apc_value of
                 Inl e \<Rightarrow> Inl e
               | Inr b \<Rightarrow> Inr (journal\<lparr>apc := b\<rparr>))
         else Inr journal)"

definition update_journal_from_row :: "Journal \<Rightarrow> row \<Rightarrow> error + Journal" where
  "update_journal_from_row journal r =
     (case merge_seal (merge_publisher (merge_language (merge_title journal r) r) r) r of
        Inl e \<Rightarrow> Inl e
      | Inr journal' \<Rightarrow> merge_apc (merge_licence journal' r) r)"

text \<open>
  A merge map is a Python dict: insertion ordered, a new key goes to the end, an existing
  key keeps its place. \<open>AList.update\<close> does exactly that; \<open>map_of\<close> is the lookup and
  \<open>map snd\<close> is \<open>list(d.values())\<close>.
\<close>

type_synonym 'a pydict = "(string \<times> 'a) list"

text \<open>\<open>_collect_journals\<close>: the loop over \<open>df.iterrows()\<close>, then the method.\<close>

fun collect_journal_rows :: "(nat \<times> row) list \<Rightarrow> Journal pydict \<Rightarrow> error + Journal pydict" where
  "collect_journal_rows [] target = Inr target"
| "collect_journal_rows ((idx, r) # rest) target =
     (let key = get_journal_key r idx
      in if key = [] then collect_journal_rows rest target
         else case map_of target key of
                Some journal \<Rightarrow>
                  (case update_journal_from_row journal r of
                     Inl e \<Rightarrow> Inl e
                   | Inr journal' \<Rightarrow> collect_journal_rows rest (AList.update key journal' target))
              | None \<Rightarrow>
                  (case dataframe_to_journal r of
                     Some journal \<Rightarrow> collect_journal_rows rest (AList.update key journal target)
                   | None \<Rightarrow> collect_journal_rows rest target))"

definition collect_journals :: "dataframe option \<Rightarrow> Journal pydict \<Rightarrow> error + Journal pydict" where
  "collect_journals df target =
     (case df of
        None \<Rightarrow> Inr target
      | Some d \<Rightarrow> if df_empty d then Inr target else collect_journal_rows (iterrows d) target)"

text \<open>
  \<open>_collect_categories\<close>: keyed by the first identifier, or by \<open>__row_\<close> and the index;
  on a repeated key the quartile is filled when the stored one is None or empty and the
  new one is not.
\<close>

fun collect_category_rows :: "(nat \<times> row) list \<Rightarrow> Category pydict \<Rightarrow> Category pydict" where
  "collect_category_rows [] target = target"
| "collect_category_rows ((idx, r) # rest) target =
     (case dataframe_to_category r of
        None \<Rightarrow> collect_category_rows rest target
      | Some category \<Rightarrow>
          (let identifier = (if getIds category \<noteq> [] then hd (getIds category)
                             else ''__row_'' @ str_nat idx)
           in case map_of target identifier of
                Some existing \<Rightarrow>
                  (if (quartile existing = None \<or> quartile existing = Some [])
                       \<and> \<not> (quartile category = None \<or> quartile category = Some [])
                   then collect_category_rows rest
                          (AList.update identifier (existing\<lparr>quartile := quartile category\<rparr>) target)
                   else collect_category_rows rest target)
              | None \<Rightarrow> collect_category_rows rest (AList.update identifier category target)))"

definition collect_categories :: "dataframe option \<Rightarrow> Category pydict \<Rightarrow> Category pydict" where
  "collect_categories df target =
     (case df of
        None \<Rightarrow> target
      | Some d \<Rightarrow> if df_empty d then target else collect_category_rows (iterrows d) target)"

text \<open>\<open>_collect_areas\<close>: a repeated key is dropped.\<close>

fun collect_area_rows :: "(nat \<times> row) list \<Rightarrow> Area pydict \<Rightarrow> Area pydict" where
  "collect_area_rows [] target = target"
| "collect_area_rows ((idx, r) # rest) target =
     (case dataframe_to_area r of
        None \<Rightarrow> collect_area_rows rest target
      | Some area \<Rightarrow>
          (let identifier = (if getIds area \<noteq> [] then hd (getIds area)
                             else ''__row_'' @ str_nat idx)
           in if map_of target identifier = None
              then collect_area_rows rest (AList.update identifier area target)
              else collect_area_rows rest target))"

definition collect_areas :: "dataframe option \<Rightarrow> Area pydict \<Rightarrow> Area pydict" where
  "collect_areas df target =
     (case df of
        None \<Rightarrow> target
      | Some d \<Rightarrow> if df_empty d then target else collect_area_rows (iterrows d) target)"

section \<open>The public query methods of BasicQueryEngine\<close>

text \<open>
  Every get-many method is the same loop: call the method on each registered handler in
  turn and collect the returned frame into one merge map. An exception, from the handler
  or from the collecting, leaves the loop; the \<open>except\<close> clause of the method then
  returns the empty list. The first argument is the method called on a handler. (The
  journal loop is also the inner loop of the batched fetch, where it runs over the
  chunks of identifiers.)
\<close>

fun fan_out_journals ::
  "('h \<Rightarrow> response) \<Rightarrow> 'h list \<Rightarrow> Journal pydict \<Rightarrow> error + Journal pydict" where
  "fan_out_journals call [] journal_map = Inr journal_map"
| "fan_out_journals call (handler # rest) journal_map =
     (case call handler of
        Inl e \<Rightarrow> Inl e
      | Inr df \<Rightarrow>
          (case collect_journals df journal_map of
             Inl e \<Rightarrow> Inl e
           | Inr journal_map' \<Rightarrow> fan_out_journals call rest journal_map'))"

definition get_many_journals :: "(JournalHandler \<Rightarrow> response) \<Rightarrow> BasicQueryEngine \<Rightarrow> Journal list" where
  "get_many_journals call eng =
     (case fan_out_journals call (journalQuery eng) [] of
        Inl e \<Rightarrow> []
      | Inr journal_map \<Rightarrow> map snd journal_map)"

fun fan_out_categories ::
  "(CategoryHandler \<Rightarrow> response) \<Rightarrow> CategoryHandler list \<Rightarrow> Category pydict \<Rightarrow> error + Category pydict" where
  "fan_out_categories call [] category_map = Inr category_map"
| "fan_out_categories call (handler # rest) category_map =
     (case call handler of
        Inl e \<Rightarrow> Inl e
      | Inr df \<Rightarrow> fan_out_categories call rest (collect_categories df category_map))"

definition get_many_categories :: "(CategoryHandler \<Rightarrow> response) \<Rightarrow> BasicQueryEngine \<Rightarrow> Category list" where
  "get_many_categories call eng =
     (case fan_out_categories call (categoryQuery eng) [] of
        Inl e \<Rightarrow> []
      | Inr category_map \<Rightarrow> map snd category_map)"

fun fan_out_areas ::
  "(CategoryHandler \<Rightarrow> response) \<Rightarrow> CategoryHandler list \<Rightarrow> Area pydict \<Rightarrow> error + Area pydict" where
  "fan_out_areas call [] area_map = Inr area_map"
| "fan_out_areas call (handler # rest) area_map =
     (case call handler of
        Inl e \<Rightarrow> Inl e
      | Inr df \<Rightarrow> fan_out_areas call rest (collect_areas df area_map))"

definition get_many_areas :: "(CategoryHandler \<Rightarrow> response) \<Rightarrow> BasicQueryEngine \<Rightarrow> Area list" where
  "get_many_areas call eng =
     (case fan_out_areas call (categoryQuery eng) [] of
        Inl e \<Rightarrow> []
      | Inr area_map \<Rightarrow> map snd area_map)"


definition getJournalsWithTitle :: "BasicQueryEngine \<Rightarrow> string \<Rightarrow> Journal list" where
  "getJournalsWithTitle eng partialTitle =
     get_many_journals (\<lambda>handler. jh_getJournalsWithTitle handler partialTitle) eng"

definition getJournalsPublishedBy :: "BasicQueryEngine \<Rightarrow> string \<Rightarrow> Journal list" where
  "getJournalsPublishedBy eng partialName =
     get_many_journals (\<lambda>handler. jh_getJournalsPublishedBy handler partialName) eng"

definition getJournalsWithLicense :: "BasicQueryEngine \<Rightarrow> string set \<Rightarrow> Journal list" where
  "getJournalsWithLicense eng licenses =
     get_many_journals (\<lambda>handler. jh_getJournalsWithLicense handler licenses) eng"

definition getJournalsWithAPC :: "BasicQueryEngine \<Rightarrow> Journal list" where
  "getJournalsWithAPC eng = get_many_journals jh_getJournalsWithAPC eng"

definition getJournalsWithDOAJSeal :: "BasicQueryEngine \<Rightarrow> Journal list" where
  "getJournalsWithDOAJSeal eng = get_many_journals jh_getJournalsWithDOAJSeal eng"


definition getAllAreas :: "BasicQueryEngine \<Rightarrow> Area list" where
  "getAllAreas eng = get_many_areas ch_getAllAreas eng"


definition getCategoriesAssignedToAreas :: "BasicQueryEngine \<Rightarrow> string set \<Rightarrow> Category list" where
  "getCategoriesAssignedToAreas eng area_ids =
     get_many_categories (\<lambda>handler. ch_getCategoriesAssignedToAreas handler area_ids) eng"

definition getAreasAssignedToCategories :: "BasicQueryEngine \<Rightarrow> string set \<Rightarrow> Area list" where
  "getAreasAssignedToCategories eng category_ids =
     get_many_areas (\<lambda>handler. ch_getAreasAssignedToCategories handler category_ids) eng"


section \<open>Notions used to state the merge properties\<close>

text \<open>A column is present in a row when the row has it with a meaningful value.\<close>

definition present :: "row \<Rightarrow> string \<Rightarrow> bool" where
  "present r k = (row_has r k \<and> has_value (row_get r k))"


text \<open>Sample frames and engines for the worked examples.\<close>

definition frame_1111_X_en :: dataframe where
  "frame_1111_X_en =
     DataFrame [''issn'', ''title'', ''language''] [[CStr ''1111'', CStr ''X'', CStr ''en'']]"




definition engine_of :: "JournalHandler list \<Rightarrow> CategoryHandler list \<Rightarrow> BasicQueryEngine" where
  "engine_of jhs chs = \<lparr>journalQuery = jhs, categoryQuery = chs\<rparr>"


text \<open>
  \<open>getEntityById\<close>. A probe runs over the handlers of one kind and stops at the first
  non-empty frame, whose first row it yields; \<open>df.empty\<close> on None raises. The method
  converts the row, and its \<open>except\<close> clause turns any exception into None.
\<close>

datatype entity = JournalEntity Journal | CategoryEntity Category | AreaEntity Area

fun probe :: "('h \<Rightarrow> response) \<Rightarrow> 'h list \<Rightarrow> error + row option" where
  "probe call [] = Inr None"
| "probe call (handler # rest) =
     (case call handler of
        Inl e \<Rightarrow> Inl e
      | Inr None \<Rightarrow> Inl AttributeError
      | Inr (Some df) \<Rightarrow> if \<not> df_empty df then Inr (Some (iloc0 df)) else probe call rest)"

definition getEntityById :: "BasicQueryEngine \<Rightarrow> string \<Rightarrow> entity option" where
  "getEntityById eng entity_id =
     (case probe (\<lambda>handler. jh_getById handler entity_id) (journalQuery eng) of
        Inl e \<Rightarrow> None
      | Inr (Some r) \<Rightarrow> map_option JournalEntity (dataframe_to_journal r)
      | Inr None \<Rightarrow>
          (case probe (\<lambda>handler. ch_getById handler entity_id) (categoryQuery eng) of
             Inl e \<Rightarrow> None
           | Inr (Some r) \<Rightarrow>
               if row_has r ''quartile''
               then map_option CategoryEntity (dataframe_to_category r)
               else map_option AreaEntity (dataframe_to_area r)
           | Inr None \<Rightarrow> None))"

section \<open>The batched fetch\<close>





section \<open>The composite queries of FullQueryEngine\<close>


definition get_issns_for_area :: "CategoryHandler \<Rightarrow> string \<Rightarrow> string set" where
  "get_issns_for_area handler area_id =
     (case ch_journal_areas handler area_id of Inl e \<Rightarrow> {} | Inr fetched \<Rightarrow> set fetched)"





text \<open>The loops over the handlers and the area identifiers; nothing in them raises.\<close>

definition issns_in_areas :: "CategoryHandler list \<Rightarrow> string set \<Rightarrow> string set" where
  "issns_in_areas handlers area_ids =
     (\<Union>handler \<in> set handlers. \<Union>area_id \<in> area_ids. get_issns_for_area handler area_id)"


text \<open>
  The filter loops of the two other composite queries. \<open>filtered\<close> is a dict keyed by
  the first identifier of the journal; a journal without identifier is skipped.
\<close>

definition first_id_or_None :: "Journal \<Rightarrow> string option" where
  "first_id_or_None journal = (case getIds journal of [] \<Rightarrow> None | x # _ \<Rightarrow> Some x)"

fun filter_by_areas :: "Journal list \<Rightarrow> string set \<Rightarrow> Journal pydict \<Rightarrow> Journal pydict" where
  "filter_by_areas [] journal_issns_in_areas filtered = filtered"
| "filter_by_areas (journal # rest) journal_issns_in_areas filtered =
     (case first_id_or_None journal of
        None \<Rightarrow> filter_by_areas rest journal_issns_in_areas filtered
      | Some journal_issn \<Rightarrow>
          if journal_issn \<noteq> [] \<and> journal_issn \<in> journal_issns_in_areas
          then filter_by_areas rest journal_issns_in_areas (AList.update journal_issn journal filtered)
          else filter_by_areas rest journal_issns_in_areas filtered)"

definition getJournalsInAreasWithLicense ::
  "BasicQueryEngine \<Rightarrow> string set \<Rightarrow> string set \<Rightarrow> Journal list" where
  "getJournalsInAreasWithLicense eng area_ids licenses =
     (let journals_with_license = getJournalsWithLicense eng licenses;
          journal_issns_in_areas =
            (if area_ids \<noteq> {} then Some (issns_in_areas (categoryQuery eng) area_ids) else None)
      in case journal_issns_in_areas of
           None \<Rightarrow> journals_with_license
         | Some issns \<Rightarrow> map snd (filter_by_areas journals_with_license issns []))"






text \<open>A handler misses when its answer is an empty frame.\<close>

definition misses :: "('h \<Rightarrow> response) \<Rightarrow> 'h \<Rightarrow> bool" where
  "misses call handler = (\<exists>df. call handler = Inr (Some df) \<and> df_empty df)"

definition frame_category_C1_Q1 :: dataframe where
  "frame_category_C1_Q1 = DataFrame [''id'', ''quartile''] [[CStr ''C1'', CStr ''Q1'']]"

definition frame_area_A1 :: dataframe where
  "frame_area_A1 = DataFrame [''id''] [[CStr ''A1'']]"

definition demo_journal_lookup :: "nat \<Rightarrow> dataframe \<Rightarrow> JournalHandler" where
  "demo_journal_lookup ref df = (demo_journal_handler ref (Inr None))\<lparr>jh_getById := (\<lambda>_. Inr (Some df))\<rparr>"

definition demo_category_lookup :: "nat \<Rightarrow> dataframe \<Rightarrow> CategoryHandler" where
  "demo_category_lookup ref df = (demo_category_handler ref (Inr None))\<lparr>ch_getById := (\<lambda>_. Inr (Some df))\<rparr>"









text \<open>The journals a diamond query lets through, for given states of the two filters.\<close>

definition passes_filters :: "string set option \<Rightarrow> string set option \<Rightarrow> Journal \<Rightarrow> bool" where
  "passes_filters area_filter category_filter journal =
     (\<exists>i. first_id_or_None journal = Some i
          \<and> (\<forall>issns. area_filter = Some issns \<longrightarrow> i \<in> issns)
          \<and> (\<forall>issns. category_filter = Some issns \<longrightarrow> i \<in> issns))"

text \<open>
  The invariant of a journal merge map: keys are distinct and non-empty, and a stored
  journal has no identifier or exactly its key.
\<close>

definition keyed_ok :: "Journal pydict \<Rightarrow> bool" where
  "keyed_ok m =
     (distinct (map fst m) \<and> (\<forall>(k, j) \<in> set m. k \<noteq> [] \<and> (ids j = [] \<or> ids j = [k])))"

definition first_ids_ok :: "Journal list \<Rightarrow> bool" where
  "first_ids_ok js = (distinct (concat (map ids js)) \<and> [] \<notin> set (concat (map ids js)))"

definition frame_category_no_journals :: dataframe where
  "frame_category_no_journals = DataFrame [''id'', ''quartile''] [[CStr ''C9'', CStr ''Q2'']]"

definition frame_1111_diamond :: dataframe where
  "frame_1111_diamond =
     DataFrame [''issn'', ''title'', ''apc''] [[CStr ''1111'', CStr ''X'', CStr ''false'']]"



section \<open>Verification: identifier mutators\<close>

lemma addId_ids_ok: "ids_ok e \<Longrightarrow> ids_ok (addId e s)"
  by (auto simp: ids_ok_def addId_def)

lemma setId_ids_ok: "ids_ok (setId e s)"
  by (simp add: ids_ok_def setId_def)

lemma id_call_apply_ids_ok: "ids_ok e \<Longrightarrow> ids_ok (id_call_apply e c)"
  by (cases c) (simp_all add: addId_ids_ok setId_ids_ok)

lemma id_calls_apply_ids_ok: "ids_ok e \<Longrightarrow> ids_ok (id_calls_apply e calls)"
  unfolding id_calls_apply_def
  by (induction calls arbitrary: e) (simp_all add: id_call_apply_ids_ok)

text \<open>
  C9. Starting from an entity whose identifier list is empty (as every constructor
  leaves it), any sequence of \<open>addId\<close> and \<open>setId\<close> calls yields a list with no empty
  string and no duplicate. On any entity, \<open>addId\<close> with an empty or already present
  identifier changes nothing, \<open>addId\<close> with a new non-empty identifier appends it after
  the existing ones, and \<open>setId\<close> leaves exactly the given identifier, or no identifier
  for the empty string.
\<close>

theorem C9_identifier_list_invariant:
  fixes e :: "'a IdentifiableEntity_scheme"
  shows "(ids e = [] \<longrightarrow>
            distinct (getIds (id_calls_apply e calls)) \<and> [] \<notin> set (getIds (id_calls_apply e calls)))
       \<and> (s = [] \<or> s \<in> set (ids e) \<longrightarrow> addId e s = e)
       \<and> (s \<noteq> [] \<and> s \<notin> set (ids e) \<longrightarrow> getIds (addId e s) = getIds e @ [s])
       \<and> getIds (setId e s) = (if s = [] then [] else [s])
       \<and> length (getIds (setId e s)) \<le> 1"
proof -
  have inv: "distinct (getIds (id_calls_apply e calls)) \<and> [] \<notin> set (getIds (id_calls_apply e calls))"
    if "ids e = []"
  proof -
    from that have "ids_ok e" by (simp add: ids_ok_def)
    then have "ids_ok (id_calls_apply e calls)" by (rule id_calls_apply_ids_ok)
    then show ?thesis by (simp add: ids_ok_def getIds_def)
  qed
  have noop: "s = [] \<or> s \<in> set (ids e) \<longrightarrow> addId e s = e"
    by (auto simp: addId_def)
  have app: "s \<noteq> [] \<and> s \<notin> set (ids e) \<longrightarrow> getIds (addId e s) = getIds e @ [s]"
    by (simp add: addId_def getIds_def)
  have set1: "getIds (setId e s) = (if s = [] then [] else [s])"
    by (simp add: setId_def getIds_def)
  have set2: "length (getIds (setId e s)) \<le> 1"
    by (simp add: setId_def getIds_def)
  from inv noop app set1 set2 show ?thesis by blast
qed

theorem C9_identifier_list_invariant_witness:
  "getIds (id_calls_apply new_Journal
      [AddId ''1111'', AddId [], AddId ''1111'', AddId ''2222'', SetId ''3333'', AddId ''1111''])
     = [''3333'', ''1111'']
   \<and> distinct [''3333'', ''1111''] \<and> [] \<notin> set [''3333'', ''1111'']
   \<and> addId (setId new_Category ''A'') ''A'' = setId new_Category ''A''
   \<and> getIds (addId (setId new_Category ''A'') ''B'') = [''A'', ''B'']"
proof -
  have run: "getIds (id_calls_apply new_Journal
      [AddId ''1111'', AddId [], AddId ''1111'', AddId ''2222'', SetId ''3333'', AddId ''1111''])
     = [''3333'', ''1111'']"
    by (simp add: id_calls_apply_def addId_def setId_def getIds_def new_Journal_def)
  have inv: "distinct [''3333'', ''1111''] \<and> [] \<notin> set [''3333'', ''1111'']"
    using C9_identifier_list_invariant [of new_Journal
        "[AddId ''1111'', AddId [], AddId ''1111'', AddId ''2222'', SetId ''3333'', AddId ''1111'']" "[]"]
    unfolding run by (simp add: new_Journal_def)
  have noop: "addId (setId new_Category ''A'') ''A'' = setId new_Category ''A''"
    using C9_identifier_list_invariant [of "setId new_Category ''A''" "[]" "''A''"]
    by (simp add: setId_def)
  have app: "getIds (addId (setId new_Category ''A'') ''B'') = [''A'', ''B'']"
    using C9_identifier_list_invariant [of "setId new_Category ''A''" "[]" "''B''"]
    by (simp add: setId_def getIds_def)
  show ?thesis using run inv noop app by blast
qed

section \<open>Verification: handler registration\<close>

lemma registry_call_apply_ok: "registry_ok eng \<Longrightarrow> registry_ok (registry_call_apply eng c)"
  by (cases c)
    (auto simp: registry_ok_def addJournalHandler_def addCategoryHandler_def
      cleanJournalHandlers_def cleanCategoryHandlers_def split: option.splits)

lemma foldl_registry_ok:
  "registry_ok eng \<Longrightarrow> registry_ok (foldl registry_call_apply eng calls)"
  by (induction calls arbitrary: eng) (simp_all add: registry_call_apply_ok)

lemma engine_after_ok: "registry_ok (engine_after calls)"
  unfolding engine_after_def
  by (rule foldl_registry_ok) (simp add: registry_ok_def new_BasicQueryEngine_def)

lemma distinct_map_filter_le1:
  "distinct (map f xs) \<Longrightarrow> length (filter (\<lambda>x. f x = a) xs) \<le> 1"
proof (induction xs)
  case Nil
  then show ?case by simp
next
  case (Cons x xs)
  show ?case
  proof (cases "f x = a")
    case True
    with Cons.prems have "a \<notin> f ` set xs" by auto
    then have "filter (\<lambda>x. f x = a) xs = []" by (auto simp: filter_empty_conv)
    with True show ?thesis by simp
  next
    case False
    with Cons show ?thesis by simp
  qed
qed

lemma member_filter_ge1:
  "x \<in> set xs \<Longrightarrow> 1 \<le> length (filter (\<lambda>y. f y = f x) xs)"
  by (induction xs) auto

lemma add_journal_twice:
  assumes "registry_ok eng"
  shows "journal_entries (snd (addJournalHandler (snd (addJournalHandler eng (Some h))) (Some h))) h = 1"
    and "snd (addJournalHandler (snd (addJournalHandler eng (Some h))) (Some h))
           = snd (addJournalHandler eng (Some h))"
proof -
  let ?e1 = "snd (addJournalHandler eng (Some h))"
  have ok1: "registry_ok ?e1"
    using assms registry_call_apply_ok [of eng "AddJournalHandler (Some h)"] by simp
  have mem: "jh_ref h \<in> set (map jh_ref (journalQuery ?e1))"
    by (auto simp: addJournalHandler_def)
  then show same: "snd (addJournalHandler ?e1 (Some h)) = ?e1"
    by (simp add: addJournalHandler_def)
  from mem obtain x where x: "x \<in> set (journalQuery ?e1)" "jh_ref x = jh_ref h" by auto
  from member_filter_ge1 [OF x(1), of jh_ref] x(2)
  have "1 \<le> journal_entries ?e1 h" by (simp add: journal_entries_def)
  moreover from ok1 have "journal_entries ?e1 h \<le> 1"
    unfolding journal_entries_def registry_ok_def by (blast intro: distinct_map_filter_le1)
  ultimately show "journal_entries (snd (addJournalHandler ?e1 (Some h))) h = 1"
    using same by simp
qed

lemma add_category_twice:
  assumes "registry_ok eng"
  shows "category_entries (snd (addCategoryHandler (snd (addCategoryHandler eng (Some h))) (Some h))) h = 1"
    and "snd (addCategoryHandler (snd (addCategoryHandler eng (Some h))) (Some h))
           = snd (addCategoryHandler eng (Some h))"
proof -
  let ?e1 = "snd (addCategoryHandler eng (Some h))"
  have ok1: "registry_ok ?e1"
    using assms registry_call_apply_ok [of eng "AddCategoryHandler (Some h)"] by simp
  have mem: "ch_ref h \<in> set (map ch_ref (categoryQuery ?e1))"
    by (auto simp: addCategoryHandler_def)
  then show same: "snd (addCategoryHandler ?e1 (Some h)) = ?e1"
    by (simp add: addCategoryHandler_def)
  from mem obtain x where x: "x \<in> set (categoryQuery ?e1)" "ch_ref x = ch_ref h" by auto
  from member_filter_ge1 [OF x(1), of ch_ref] x(2)
  have "1 \<le> category_entries ?e1 h" by (simp add: category_entries_def)
  moreover from ok1 have "category_entries ?e1 h \<le> 1"
    unfolding category_entries_def registry_ok_def by (blast intro: distinct_map_filter_le1)
  ultimately show "category_entries (snd (addCategoryHandler ?e1 (Some h))) h = 1"
    using same by simp
qed

text \<open>
  C8. In every engine state that registry calls can build, registering a handler
  instance twice leaves exactly one entry for it in its collection (the second call
  changes nothing), for journal handlers and for classification handlers alike, and
  each of the four registry methods returns True.
\<close>

theorem C8_registration_idempotent:
  "journal_entries
      (snd (addJournalHandler (snd (addJournalHandler (engine_after calls) (Some jh))) (Some jh))) jh = 1
   \<and> snd (addJournalHandler (snd (addJournalHandler (engine_after calls) (Some jh))) (Some jh))
       = snd (addJournalHandler (engine_after calls) (Some jh))
   \<and> category_entries
      (snd (addCategoryHandler (snd (addCategoryHandler (engine_after calls) (Some ch))) (Some ch))) ch = 1
   \<and> snd (addCategoryHandler (snd (addCategoryHandler (engine_after calls) (Some ch))) (Some ch))
       = snd (addCategoryHandler (engine_after calls) (Some ch))
   \<and> fst (addJournalHandler eng jho) \<and> fst (addCategoryHandler eng cho)
   \<and> fst (cleanJournalHandlers eng) \<and> fst (cleanCategoryHandlers eng)"
proof -
  have ok: "registry_ok (engine_after calls)" by (rule engine_after_ok)
  have flags: "fst (addJournalHandler eng jho) \<and> fst (addCategoryHandler eng cho)
     \<and> fst (cleanJournalHandlers eng) \<and> fst (cleanCategoryHandlers eng)"
    by (simp add: addJournalHandler_def addCategoryHandler_def cleanJournalHandlers_def
        cleanCategoryHandlers_def split: option.splits)
  from add_journal_twice [OF ok, of jh] add_category_twice [OF ok, of ch] flags
  show ?thesis by blast
qed

theorem C8_registration_idempotent_witness:
  "map jh_ref (journalQuery (snd (addJournalHandler (snd (addJournalHandler
       (engine_after [AddJournalHandler (Some (demo_journal_handler 1 (Inr None)))])
       (Some (demo_journal_handler 2 (Inr None))))) (Some (demo_journal_handler 2 (Inr None))))))
     = [1, 2]
   \<and> journal_entries (snd (addJournalHandler (snd (addJournalHandler
       (engine_after [AddJournalHandler (Some (demo_journal_handler 1 (Inr None)))])
       (Some (demo_journal_handler 2 (Inr None))))) (Some (demo_journal_handler 2 (Inr None)))))
       (demo_journal_handler 2 (Inr None)) = 1
   \<and> category_entries (snd (addCategoryHandler (snd (addCategoryHandler
       (engine_after [AddJournalHandler (Some (demo_journal_handler 1 (Inr None)))])
       (Some (demo_category_handler 7 (Inr None))))) (Some (demo_category_handler 7 (Inr None)))))
       (demo_category_handler 7 (Inr None)) = 1"
proof -
  have run: "map jh_ref (journalQuery (snd (addJournalHandler (snd (addJournalHandler
       (engine_after [AddJournalHandler (Some (demo_journal_handler 1 (Inr None)))])
       (Some (demo_journal_handler 2 (Inr None))))) (Some (demo_journal_handler 2 (Inr None))))))
     = [1, 2]"
    by (simp add: engine_after_def addJournalHandler_def new_BasicQueryEngine_def
        demo_journal_handler_def)
  from run C8_registration_idempotent
    [of "[AddJournalHandler (Some (demo_journal_handler 1 (Inr None)))]"
        "demo_journal_handler 2 (Inr None)" "demo_category_handler 7 (Inr None)"
        new_BasicQueryEngine None None]
  show ?thesis by blast
qed


section \<open>Verification: the journal merge\<close>




















lemma map_of_update_other: "k \<noteq> k' \<Longrightarrow> map_of (AList.update k' v al) k = map_of al k"
  by (simp add: update_conv')






lemmas frame_eval =
  df_empty_def iterrows_def row_of_def iloc0_def row_has_def row_get_def present_def
  strip_def is_space_def lower_def lower_char_def str_nat.simps str_int_def Let_def

lemmas journal_eval =
  get_journal_key_def dataframe_to_journal_def update_journal_from_row_def merge_title_def
  merge_language_def merge_publisher_def merge_seal_def merge_licence_def merge_apc_def
  new_Journal_def setId_def collect_journals_def






section \<open>Verification: lookup of one entity\<close>

lemma probe_hit:
  "\<forall>x \<in> set before. misses call x \<Longrightarrow> call h = Inr (Some df) \<Longrightarrow> \<not> df_empty df
     \<Longrightarrow> probe call (before @ h # after) = Inr (Some (iloc0 df))"
  by (induction before) (auto simp: misses_def)

lemma probe_all_miss: "\<forall>x \<in> set hs. misses call x \<Longrightarrow> probe call hs = Inr None"
  by (induction hs) (auto simp: misses_def)


lemma to_bool_raises: "(\<exists>e. to_bool v = Inl e) \<longleftrightarrow> v = CNA"
  by (cases v) auto

lemma dataframe_to_journal_None:
  "dataframe_to_journal r = None \<longleftrightarrow> row_get r ''seal'' = CNA \<or> row_get r ''apc'' = CNA"
proof -
  let ?X = "if has_value (row_get r ''seal'') then to_bool (row_get r ''seal'') else Inr False"
  let ?Y = "if has_value (row_get r ''apc'') then to_bool (row_get r ''apc'') else Inr False"
  have s: "(\<exists>e. ?X = Inl e) \<longleftrightarrow> row_get r ''seal'' = CNA"
    using to_bool_raises [of "row_get r ''seal''"] by (cases "row_get r ''seal''") auto
  have a: "(\<exists>e. ?Y = Inl e) \<longleftrightarrow> row_get r ''apc'' = CNA"
    using to_bool_raises [of "row_get r ''apc''"] by (cases "row_get r ''apc''") auto
  have "dataframe_to_journal r = None \<longleftrightarrow> (\<exists>e. ?X = Inl e) \<or> (\<exists>e. ?Y = Inl e)"
    unfolding dataframe_to_journal_def Let_def
    by (cases ?X; cases ?Y) (simp_all only: sum.case option.distinct sum.inject sum.distinct simp_thms)
  with s a show ?thesis by simp
qed

text \<open>
  C7. If the journal handlers before the first one with a non-empty answer all answer
  with an empty frame, \<open>getEntityById\<close> returns the first row of that answer converted
  to a Journal (the conversion yields a journal unless the seal or apc cell is NA). If
  every journal handler answers with an empty frame, the classification handlers are
  probed in the same way, and the first row of the first non-empty answer becomes a
  Category when the row has a quartile column and an Area otherwise. If every handler
  answers with an empty frame the result is None, not an entity.
\<close>

theorem C7_getEntityById:
  "(journalQuery eng1 = before1 @ h1 # after1
      \<and> (\<forall>x \<in> set before1. misses (\<lambda>handler. jh_getById handler entity_id) x)
      \<and> jh_getById h1 entity_id = Inr (Some df1) \<and> \<not> df_empty df1
    \<longrightarrow> getEntityById eng1 entity_id = map_option JournalEntity (dataframe_to_journal (iloc0 df1))
        \<and> (row_get (iloc0 df1) ''seal'' \<noteq> CNA \<and> row_get (iloc0 df1) ''apc'' \<noteq> CNA
            \<longrightarrow> (\<exists>journal. getEntityById eng1 entity_id = Some (JournalEntity journal))))
   \<and> ((\<forall>x \<in> set (journalQuery eng2). misses (\<lambda>handler. jh_getById handler entity_id) x)
      \<and> categoryQuery eng2 = before2 @ h2 # after2
      \<and> (\<forall>x \<in> set before2. misses (\<lambda>handler. ch_getById handler entity_id) x)
      \<and> ch_getById h2 entity_id = Inr (Some df2) \<and> \<not> df_empty df2
    \<longrightarrow> (row_has (iloc0 df2) ''quartile''
          \<longrightarrow> (\<exists>category. dataframe_to_category (iloc0 df2) = Some category
                 \<and> getEntityById eng2 entity_id = Some (CategoryEntity category)))
        \<and> (\<not> row_has (iloc0 df2) ''quartile''
          \<longrightarrow> (\<exists>area. dataframe_to_area (iloc0 df2) = Some area
                 \<and> getEntityById eng2 entity_id = Some (AreaEntity area))))
   \<and> ((\<forall>x \<in> set (journalQuery eng3). misses (\<lambda>handler. jh_getById handler entity_id) x)
      \<and> (\<forall>x \<in> set (categoryQuery eng3). misses (\<lambda>handler. ch_getById handler entity_id) x)
    \<longrightarrow> getEntityById eng3 entity_id = None)"
proof (intro conjI impI)
  assume h: "journalQuery eng1 = before1 @ h1 # after1
      \<and> (\<forall>x \<in> set before1. misses (\<lambda>handler. jh_getById handler entity_id) x)
      \<and> jh_getById h1 entity_id = Inr (Some df1) \<and> \<not> df_empty df1"
  then have p: "probe (\<lambda>handler. jh_getById handler entity_id) (journalQuery eng1) = Inr (Some (iloc0 df1))"
    using probe_hit [of before1 "\<lambda>handler. jh_getById handler entity_id" h1 df1 after1] by simp
  then show r: "getEntityById eng1 entity_id = map_option JournalEntity (dataframe_to_journal (iloc0 df1))"
    by (simp add: getEntityById_def)
  assume "row_get (iloc0 df1) ''seal'' \<noteq> CNA \<and> row_get (iloc0 df1) ''apc'' \<noteq> CNA"
  then have "dataframe_to_journal (iloc0 df1) \<noteq> None"
    by (simp add: dataframe_to_journal_None)
  with r show "\<exists>journal. getEntityById eng1 entity_id = Some (JournalEntity journal)"
    by auto
next
  assume h: "(\<forall>x \<in> set (journalQuery eng2). misses (\<lambda>handler. jh_getById handler entity_id) x)
      \<and> categoryQuery eng2 = before2 @ h2 # after2
      \<and> (\<forall>x \<in> set before2. misses (\<lambda>handler. ch_getById handler entity_id) x)
      \<and> ch_getById h2 entity_id = Inr (Some df2) \<and> \<not> df_empty df2"
  then have pj: "probe (\<lambda>handler. jh_getById handler entity_id) (journalQuery eng2) = Inr None"
    by (simp add: probe_all_miss)
  from h have pc: "probe (\<lambda>handler. ch_getById handler entity_id) (categoryQuery eng2) = Inr (Some (iloc0 df2))"
    using probe_hit [of before2 "\<lambda>handler. ch_getById handler entity_id" h2 df2 after2] by simp
  {
    assume "row_has (iloc0 df2) ''quartile''"
    with pj pc show "\<exists>category. dataframe_to_category (iloc0 df2) = Some category
                 \<and> getEntityById eng2 entity_id = Some (CategoryEntity category)"
      by (simp add: getEntityById_def dataframe_to_category_def Let_def)
  next
    assume "\<not> row_has (iloc0 df2) ''quartile''"
    with pj pc show "\<exists>area. dataframe_to_area (iloc0 df2) = Some area
                 \<and> getEntityById eng2 entity_id = Some (AreaEntity area)"
      by (simp add: getEntityById_def dataframe_to_area_def Let_def)
  }
next
  assume h: "(\<forall>x \<in> set (journalQuery eng3). misses (\<lambda>handler. jh_getById handler entity_id) x)
      \<and> (\<forall>x \<in> set (categoryQuery eng3). misses (\<lambda>handler. ch_getById handler entity_id) x)"
  then show "getEntityById eng3 entity_id = None"
    by (simp add: getEntityById_def probe_all_miss)
qed

theorem C7_getEntityById_witness:
  "getEntityById (engine_of [demo_journal_lookup 1 empty_DataFrame,
                             demo_journal_lookup 2 frame_1111_X_en] []) ''1111''
     = Some (JournalEntity \<lparr>ids = [''1111''], title = ''X'', languages = [''en''],
               publisher = None, seal = False, licence = [], apc = False,
               categories = [], areas = []\<rparr>)
   \<and> getEntityById (engine_of [demo_journal_lookup 1 empty_DataFrame]
                       [demo_category_lookup 3 empty_DataFrame,
                        demo_category_lookup 4 frame_category_C1_Q1]) ''C1''
     = Some (CategoryEntity \<lparr>ids = [''C1''], quartile = Some ''Q1''\<rparr>)
   \<and> getEntityById (engine_of [demo_journal_lookup 1 empty_DataFrame]
                       [demo_category_lookup 3 empty_DataFrame,
                        demo_category_lookup 4 frame_area_A1]) ''A1''
     = Some (AreaEntity \<lparr>ids = [''A1'']\<rparr>)
   \<and> getEntityById (engine_of [demo_journal_lookup 1 empty_DataFrame]
                       [demo_category_lookup 3 empty_DataFrame]) ''1111'' = None"
proof -
  let ?jm = "demo_journal_lookup 1 empty_DataFrame"
  let ?jh = "demo_journal_lookup 2 frame_1111_X_en"
  let ?cm = "demo_category_lookup 3 empty_DataFrame"
  let ?cc = "demo_category_lookup 4 frame_category_C1_Q1"
  let ?ca = "demo_category_lookup 4 frame_area_A1"
  let ?e1 = "engine_of [?jm, ?jh] []"
  let ?e2 = "engine_of [?jm] [?cm, ?cc]"
  let ?e2' = "engine_of [?jm] [?cm, ?ca]"
  let ?e3 = "engine_of [?jm] [?cm]"
  have mj: "misses (\<lambda>handler. jh_getById handler i) ?jm" for i
    by (simp add: misses_def demo_journal_lookup_def df_empty_def empty_DataFrame_def)
  have mc: "misses (\<lambda>handler. ch_getById handler i) ?cm" for i
    by (simp add: misses_def demo_category_lookup_def df_empty_def empty_DataFrame_def)
  have jX: "dataframe_to_journal (iloc0 frame_1111_X_en) =
      Some \<lparr>ids = [''1111''], title = ''X'', languages = [''en''], publisher = None,
            seal = False, licence = [], apc = False, categories = [], areas = []\<rparr>"
    by (simp add: frame_1111_X_en_def frame_eval journal_eval)
  have cC: "dataframe_to_category (iloc0 frame_category_C1_Q1) =
      Some \<lparr>ids = [''C1''], quartile = Some ''Q1''\<rparr>"
    by (simp add: frame_category_C1_Q1_def frame_eval dataframe_to_category_def
        new_Category_def setId_def)
  have cA: "dataframe_to_area (iloc0 frame_area_A1) = Some \<lparr>ids = [''A1'']\<rparr>"
    by (simp add: frame_area_A1_def frame_eval dataframe_to_area_def new_Area_def setId_def)
  have q: "row_has (iloc0 frame_category_C1_Q1) ''quartile''"
      "\<not> row_has (iloc0 frame_area_A1) ''quartile''"
    by (simp_all add: frame_category_C1_Q1_def frame_area_A1_def frame_eval)
  have ne: "\<not> df_empty frame_1111_X_en" "\<not> df_empty frame_category_C1_Q1"
      "\<not> df_empty frame_area_A1"
    by (simp_all add: frame_1111_X_en_def frame_category_C1_Q1_def frame_area_A1_def df_empty_def)
  have h1: "journalQuery ?e1 = [?jm] @ ?jh # []
      \<and> (\<forall>x \<in> set [?jm]. misses (\<lambda>handler. jh_getById handler ''1111'') x)
      \<and> jh_getById ?jh ''1111'' = Inr (Some frame_1111_X_en) \<and> \<not> df_empty frame_1111_X_en"
    using mj ne by (simp add: engine_of_def demo_journal_lookup_def)
  have h2: "(\<forall>x \<in> set (journalQuery ?e2). misses (\<lambda>handler. jh_getById handler ''C1'') x)
      \<and> categoryQuery ?e2 = [?cm] @ ?cc # []
      \<and> (\<forall>x \<in> set [?cm]. misses (\<lambda>handler. ch_getById handler ''C1'') x)
      \<and> ch_getById ?cc ''C1'' = Inr (Some frame_category_C1_Q1) \<and> \<not> df_empty frame_category_C1_Q1"
    using mj mc ne by (simp add: engine_of_def demo_category_lookup_def)
  have h2': "(\<forall>x \<in> set (journalQuery ?e2'). misses (\<lambda>handler. jh_getById handler ''A1'') x)
      \<and> categoryQuery ?e2' = [?cm] @ ?ca # []
      \<and> (\<forall>x \<in> set [?cm]. misses (\<lambda>handler. ch_getById handler ''A1'') x)
      \<and> ch_getById ?ca ''A1'' = Inr (Some frame_area_A1) \<and> \<not> df_empty frame_area_A1"
    using mj mc ne by (simp add: engine_of_def demo_category_lookup_def)
  have h3: "(\<forall>x \<in> set (journalQuery ?e3). misses (\<lambda>handler. jh_getById handler ''1111'') x)
      \<and> (\<forall>x \<in> set (categoryQuery ?e3). misses (\<lambda>handler. ch_getById handler ''1111'') x)"
    using mj mc by (simp add: engine_of_def)
  note inst = C7_getEntityById [of ?e1 "[?jm]" ?jh "[]" "''1111''" frame_1111_X_en
      ?e3 "[]" ?cm "[]" empty_DataFrame ?e3]
  note inst2 = C7_getEntityById [of ?e1 "[?jm]" ?jh "[]" "''C1''" frame_1111_X_en
      ?e2 "[?cm]" ?cc "[]" frame_category_C1_Q1 ?e3]
  note inst2' = C7_getEntityById [of ?e1 "[?jm]" ?jh "[]" "''A1''" frame_1111_X_en
      ?e2' "[?cm]" ?ca "[]" frame_area_A1 ?e3]
  from inst h1 have "getEntityById ?e1 ''1111''
      = map_option JournalEntity (dataframe_to_journal (iloc0 frame_1111_X_en))"
    by blast
  then have a: "getEntityById ?e1 ''1111''
     = Some (JournalEntity \<lparr>ids = [''1111''], title = ''X'', languages = [''en''],
               publisher = None, seal = False, licence = [], apc = False,
               categories = [], areas = []\<rparr>)"
    unfolding jX by simp
  from inst2 h2 q(1) have "\<exists>category. dataframe_to_category (iloc0 frame_category_C1_Q1) = Some category
                 \<and> getEntityById ?e2 ''C1'' = Some (CategoryEntity category)"
    by blast
  then have b: "getEntityById ?e2 ''C1'' = Some (CategoryEntity \<lparr>ids = [''C1''], quartile = Some ''Q1''\<rparr>)"
    unfolding cC by auto
  from inst2' h2' q(2) have "\<exists>area. dataframe_to_area (iloc0 frame_area_A1) = Some area
                 \<and> getEntityById ?e2' ''A1'' = Some (AreaEntity area)"
    by blast
  then have c: "getEntityById ?e2' ''A1'' = Some (AreaEntity \<lparr>ids = [''A1'']\<rparr>)"
    unfolding cA by auto
  from inst h3 have d: "getEntityById ?e3 ''1111'' = None"
    by blast
  from a b c d show ?thesis by blast
qed


section \<open>Verification: failures\<close>

















section \<open>Verification: the composite queries\<close>












end
